theory Spec2Isabelle
  imports Main
begin

section \<open>Python values and exceptions\<close>

text \<open>
  The service is one Python module, \<^verbatim>\<open>agent.py\<close>. Exceptions are values: a
  computation that may raise returns \<open>py_error + 'a\<close>, with \<open>Inl\<close> the exception.
  \<open>External\<close> stands for any exception raised inside a library call (the language
  model provider, the database driver).
\<close>

datatype py_error =
    ValueError string
  | TypeError string
  | IndexError string
  | ConfigurationError string
  | External string

text \<open>The two shapes of value that \<^verbatim>\<open>db_exec_tool\<close> can be thought to return.\<close>

datatype pyval = PyStr string | PyDict "(string \<times> pyval) list"


section \<open>String operations used by the tool\<close>

text \<open>
  A string is a sequence of characters with code points below 256 (what the type
  \<open>char\<close> holds). \<open>startswith\<close> and \<open>contains\<close> are Python's
  \<^verbatim>\<open>s.startswith(p)\<close> and \<^verbatim>\<open>sub in s\<close>.
\<close>

fun startswith :: "string \<Rightarrow> string \<Rightarrow> bool" where
  "startswith s [] = True"
| "startswith [] (p # ps) = False"
| "startswith (c # cs) (p # ps) = (c = p \<and> startswith cs ps)"

fun contains :: "string \<Rightarrow> string \<Rightarrow> bool" where
  "contains sub [] = (sub = [])"
| "contains sub (c # cs) = (startswith (c # cs) sub \<or> contains sub cs)"

text \<open>
  \<^verbatim>\<open>s.replace(old, new)\<close>: the occurrences of \<open>old\<close> are found from left to right
  and do not overlap; the scan resumes after each replaced occurrence. With an empty
  \<open>old\<close>, \<open>new\<close> is inserted before every character and at the end.
\<close>

function replace :: "string \<Rightarrow> string \<Rightarrow> string \<Rightarrow> string" where
  "replace [] old new = (if old = [] then new else [])"
| "replace (c # cs) old new =
     (if old = [] then new @ c # replace cs old new
      else if startswith (c # cs) old
        then new @ replace (drop (length old) (c # cs)) old new
      else c # replace cs old new)"
  by pat_completeness auto
termination
  by (relation "measure (\<lambda>(s, old, new). length s)") auto

text \<open>
  \<^verbatim>\<open>s.strip()\<close> removes leading and trailing whitespace. \<open>isspace\<close> lists the
  characters below 256 for which \<^verbatim>\<open>str.isspace\<close> holds: the ASCII ones, the next
  line control U+0085 and the no-break space U+00A0.
\<close>

definition isspace :: "char \<Rightarrow> bool" where
  "isspace c = (c \<in> set [CHR 0x09, CHR 0x0A, CHR 0x0B, CHR 0x0C, CHR 0x0D,
                          CHR 0x1C, CHR 0x1D, CHR 0x1E, CHR 0x1F, CHR '' '',
                          CHR 0x85, CHR 0xA0])"

definition strip :: "string \<Rightarrow> string" where
  "strip s = rev (dropWhile isspace (rev (dropWhile isspace s)))"


section \<open>The database and \<^verbatim>\<open>db_exec_tool\<close>\<close>

text \<open>
  The database is the module-level object \<^verbatim>\<open>db\<close>. \<open>engine\<close> runs one statement:
  \<open>Inr\<close> is the result set as text, \<open>Inl\<close> the text of the error the engine reports.
  \<open>submitted\<close> records every statement handed to the engine, oldest first.
\<close>

record database =
  engine :: "string \<Rightarrow> string + string"
  submitted :: "string list"

text \<open>
  Modelled from the spec: \<^verbatim>\<open>db.run_no_throw\<close> is a method of the library class
  \<^verbatim>\<open>SQLDatabase\<close> and is not part of the module. The spec gives its contract:
  it runs a SQL string and returns either the result set serialized to text or an
  error message as text, and never raises.
\<close>

definition run_no_throw :: "database \<Rightarrow> string \<Rightarrow> (py_error + string) \<times> database" where
  "run_no_throw d command =
     (case engine d command of
        Inl message \<Rightarrow> Inr message
      | Inr rows \<Rightarrow> Inr rows,
      d\<lparr>submitted := submitted d @ [command]\<rparr>)"

definition fence_sql :: string where
  "fence_sql = ''```sql''"

definition fence :: string where
  "fence = ''```''"

text \<open>
  \<^verbatim>\<open>db_exec_tool(query)\<close>, lines 45 to 62. The two \<^verbatim>\<open>print\<close> calls write to standard
  output only and are left out. An exception of \<^verbatim>\<open>run_no_throw\<close> would propagate.
\<close>

definition db_exec_tool :: "database \<Rightarrow> string \<Rightarrow> (py_error + pyval) \<times> database" where
  "db_exec_tool d query0 =
     (let q = strip (replace (replace query0 fence_sql []) fence []) in
      case run_no_throw d q of
        (Inl e, d') \<Rightarrow> (Inl e, d')
      | (Inr result, d') \<Rightarrow> (Inr (PyDict [(''result'', PyStr result)]), d'))"


section \<open>Messages, state and commands\<close>

datatype message_kind = Human | AI | ToolResult

record message =
  kind :: message_kind
  content :: string
  name :: "string option"

definition HumanMessage :: "string \<Rightarrow> string \<Rightarrow> message" where
  "HumanMessage c n = \<lparr>kind = Human, content = c, name = Some n\<rparr>"

text \<open>\<^verbatim>\<open>MessagesState\<close>: a dictionary with the single key \<^verbatim>\<open>"messages"\<close>.\<close>

record messages_state =
  messages :: "message list"

datatype node = START | QUERY_GEN | QUERY_CHECK | QUERY_EXECUTE | END

text \<open>
  \<^verbatim>\<open>Command(update={"messages": [...]}, goto=...)\<close>: the messages to add to the
  state and the node to run next.
\<close>

record command =
  update :: "message list"
  goto :: node

text \<open>
  \<^verbatim>\<open>xs[-1]\<close> raises \<^verbatim>\<open>IndexError\<close> on an empty list.
\<close>

definition last_message :: "message list \<Rightarrow> py_error + message" where
  "last_message ms =
     (case ms of
        [] \<Rightarrow> Inl (IndexError ''list index out of range'')
      | _ # _ \<Rightarrow> Inr (last ms))"


section \<open>The language model and the agents built on it\<close>

text \<open>
  Every invocation of the language model is recorded: the tools granted to it, the
  output schema forced on it (if any), its directive (the full prompt of a plain call,
  the \<^verbatim>\<open>state_modifier\<close> of an agent) and the messages it was given.
\<close>

record oracle_call =
  granted_tools :: "string list"
  output_schema :: "string option"
  directive :: string
  input_messages :: "message list"

text \<open>\<^verbatim>\<open>class QueryChecker(BaseModel)\<close>, lines 64 to 67.\<close>

record QueryChecker =
  query :: string

text \<open>
  The model is opaque. Its replies are arbitrary functions of what it is given and of
  the calls made before (so that two calls with the same input may differ), and each
  reply may be an exception:
  \<^item> \<open>structured_output\<close> is \<^verbatim>\<open>llm.with_structured_output(QueryChecker).invoke(prompt)\<close>;
  \<^item> \<open>react\<close> is \<^verbatim>\<open>create_react_agent(llm, tools, state_modifier).invoke(state)\<close>,
    given the names of the tools, the directive and the messages of the state; it
    returns the messages of the agent's final state.
\<close>

record llm =
  structured_output :: "oracle_call list \<Rightarrow> string \<Rightarrow> py_error + QueryChecker"
  react :: "oracle_call list \<Rightarrow> string list \<Rightarrow> string \<Rightarrow> message list
              \<Rightarrow> py_error + message list"

record tool =
  tool_name :: string

record agent =
  agent_llm :: llm
  agent_tools :: "tool list"
  state_modifier :: string

definition create_react_agent :: "llm \<Rightarrow> tool list \<Rightarrow> string \<Rightarrow> agent" where
  "create_react_agent l ts m = \<lparr>agent_llm = l, agent_tools = ts, state_modifier = m\<rparr>"

definition invoke_agent ::
  "agent \<Rightarrow> oracle_call list \<Rightarrow> messages_state
     \<Rightarrow> (py_error + messages_state) \<times> oracle_call list" where
  "invoke_agent a h st =
     (case react (agent_llm a) h (map tool_name (agent_tools a)) (state_modifier a)
             (messages st) of
        Inl e \<Rightarrow> Inl e
      | Inr ms \<Rightarrow> Inr \<lparr>messages = ms\<rparr>,
      h @ [\<lparr>granted_tools = map tool_name (agent_tools a), output_schema = None,
            directive = state_modifier a, input_messages = messages st\<rparr>])"

definition invoke_structured ::
  "llm \<Rightarrow> oracle_call list \<Rightarrow> string \<Rightarrow> string
     \<Rightarrow> (py_error + QueryChecker) \<times> oracle_call list" where
  "invoke_structured l h schema p =
     (structured_output l h p,
      h @ [\<lparr>granted_tools = [], output_schema = Some schema, directive = p,
            input_messages = []\<rparr>])"

text \<open>The \<^verbatim>\<open>@tool\<close> decorator registers \<^verbatim>\<open>db_exec_tool\<close> under its function name.\<close>

definition db_exec_tool_decl :: tool where
  "db_exec_tool_decl = \<lparr>tool_name = ''db_exec_tool''\<rparr>"


section \<open>Module initialisation\<close>

text \<open>
  The constructors of the library objects are parameters: \<open>chat_model\<close> is
  \<^verbatim>\<open>ChatGoogleGenerativeAI(model=...)\<close>, which reads the process environment,
  \<open>connect\<close> opens the database behind a connection URI, and \<open>get_tools\<close> is
  \<^verbatim>\<open>SQLDatabaseToolkit(db=db, llm=llm).get_tools()\<close>.
\<close>

record platform =
  chat_model :: "(string \<rightharpoonup> string) \<Rightarrow> string \<Rightarrow> py_error + llm"
  connect :: "string \<Rightarrow> py_error + database"
  get_tools :: "database \<Rightarrow> llm \<Rightarrow> tool list"

text \<open>
  Modelled from the spec: \<^verbatim>\<open>SQLDatabase.from_uri\<close> is a library constructor and is
  not part of the module. The spec makes a missing database URI a ConfigurationError
  at startup; with a URI the connection is opened.
\<close>

definition from_uri :: "platform \<Rightarrow> string option \<Rightarrow> py_error + database" where
  "from_uri p database_uri =
     (case database_uri of
        None \<Rightarrow> Inl (ConfigurationError ''missing database URI'')
      | Some u \<Rightarrow> connect p u)"

record globals =
  llm :: llm
  db :: database
  tools :: "tool list"
  list_tables_tool :: "tool option"
  get_schema_tool :: "tool option"

text \<open>
  Lines 27 to 43, run when the module is imported. \<open>environ\<close> is the process
  environment after \<^verbatim>\<open>load_dotenv()\<close>. \<^verbatim>\<open>os.getenv\<close> gives \<^verbatim>\<open>None\<close> for an absent
  variable, and the assignment \<^verbatim>\<open>os.environ[k] = None\<close> raises \<^verbatim>\<open>TypeError\<close>.
  \<^verbatim>\<open>next((t for t in tools if t.name == n), None)\<close> is the first tool of that name.
\<close>

definition module_init :: "platform \<Rightarrow> (string \<rightharpoonup> string) \<Rightarrow> py_error + globals" where
  "module_init p environ =
     (let api_key = environ ''GOOGLE_API_KEY'' in
      case api_key of
        None \<Rightarrow> Inl (TypeError ''str expected, not NoneType'')
      | Some k \<Rightarrow>
         (case chat_model p (environ(''GOOGLE_API_KEY'' \<mapsto> k)) ''gemini-1.5-flash'' of
            Inl e \<Rightarrow> Inl e
          | Inr l \<Rightarrow>
             (let database_url = environ ''DATABASE_URL'' in
              case from_uri p database_url of
                Inl e \<Rightarrow> Inl e
              | Inr d \<Rightarrow>
                 (let ts = get_tools p d l in
                  Inr \<lparr>llm = l, db = d, tools = ts,
                       list_tables_tool =
                         find (\<lambda>t. tool_name t = ''sql_db_list_tables'') ts,
                       get_schema_tool =
                         find (\<lambda>t. tool_name t = ''sql_db_schema'') ts\<rparr>))))"


section \<open>The three stages\<close>

definition query_gen_modifier :: string where
  "query_gen_modifier =
       ''You are an expert database query generator specialized in PostgreSQL. ''
     @ ''You are provided with tools to list the tables in the database and get the schema of specific tables. ''
     @ ''Always use the list_tables_tool first to get an overview of available tables. ''
     @ ''Then, for any relevant table(s), use the get_schema_tool to retrieve their schema before constructing the query. ''
     @ ''Ensure that the SQL query you generate is syntactically correct and follows PostgreSQL standards. ''
     @ ''Your final output should only be the SQL query, without any additional explanation or commentary.''
     @ ''If empty response is returned by database ,deal accordingly by telling that to user''"

definition query_check_system :: string where
  \<open>query_check_system =
       ''You are a SQL expert with a strong attention to detail.\<newline>''
     @ ''    You work with PostgreSQL, SQLite, and other relational databases.\<newline>''
     @ ''    Your task is to carefully review the provided SQL query for any mistakes, including:\<newline>''
     @ ''    - Quoting identifiers correctly (e.g., "Snippet" vs Snippet in PostgreSQL)\<newline>''
     @ ''    - Data type mismatches\<newline>''
     @ ''    - Using the correct number of arguments in functions\<newline>''
     @ ''    - Ensuring joins use valid columns\<newline>''
     @ ''    - Checking for NULL handling issues\<newline>''
     @ ''    - Ensuring correct usage of UNION vs UNION ALL\<newline>''
     @ ''    - Proper casting and type usage\<newline>''
     @ ''    Make sure that the final query is in a postgres acceptable format\<newline>''
     @ ''    If there is an issue, respond with the **corrected query only**.\<newline>''
     @ ''    If the query is already correct, simply return the **original query**.\<newline>''
     @ ''    ''\<close>

definition query_execute_modifier :: string where
  "query_execute_modifier =
       ''You are an expert PostgreSQL query executor. ''
     @ ''you can use db_exec_tool for execution of sql query''
     @ ''Your primary task is to execute the provided SQL query accurately and return the result. ''
     @ ''Ensure that the query is executed against the database without modification, and the response is returned in a clear, human-understandable format. ''
     @ ''Do not generate new queries, retrieve schemas, or list tables unless explicitly asked. ''
     @ ''Your output should only contain the query execution result in a human readable manner with some explanation or commentary.''
     @ ''Make sure that you show user the response and not just explanation of response''"

text \<open>
  A stage takes the module's globals, the calls made to the model so far and the
  state; it returns the command or the exception, and the calls made up to then.

  \<^verbatim>\<open>query_gen\<close>, lines 69 to 112. \<^verbatim>\<open>not list_tables_tool or not get_schema_tool\<close>
  holds exactly when one of the two is \<^verbatim>\<open>None\<close> (a tool object is truthy).
\<close>

definition tools_unavailable :: string where
  "tools_unavailable =
     ''Required database tools (list_tables_tool, get_schema_tool) are not available''"

definition query_gen ::
  "globals \<Rightarrow> oracle_call list \<Rightarrow> messages_state
     \<Rightarrow> (py_error + command) \<times> oracle_call list" where
  "query_gen g h state =
     (case (list_tables_tool g, get_schema_tool g) of
        (Some lt, Some gs) \<Rightarrow>
          (let query_agent = create_react_agent (llm g) [lt, gs] query_gen_modifier in
           case invoke_agent query_agent h state of
             (Inl e, h') \<Rightarrow> (Inl e, h')
           | (Inr result, h') \<Rightarrow>
               (case last_message (messages result) of
                  Inl e \<Rightarrow> (Inl e, h')
                | Inr m \<Rightarrow>
                    (Inr \<lparr>update = [HumanMessage (content m) ''supervisor''],
                          goto = QUERY_CHECK\<rparr>, h')))
      | _ \<Rightarrow>
          (Inl (ValueError tools_unavailable), h))"

text \<open>
  \<^verbatim>\<open>query_check\<close>, lines 114 to 150. \<open>full_prompt\<close> is the f-string of line 135.
\<close>

definition full_prompt :: "string \<Rightarrow> string" where
  "full_prompt q = query_check_system @ ''\<newline>\<newline>Query:\<newline>'' @ q"

definition query_check ::
  "globals \<Rightarrow> oracle_call list \<Rightarrow> messages_state
     \<Rightarrow> (py_error + command) \<times> oracle_call list" where
  "query_check g h state =
     (case last_message (messages state) of
        Inl e \<Rightarrow> (Inl e, h)
      | Inr m \<Rightarrow>
          (let q = content m in
           case invoke_structured (llm g) h ''QueryChecker'' (full_prompt q) of
             (Inl e, h') \<Rightarrow> (Inl e, h')
           | (Inr response, h') \<Rightarrow>
               (Inr \<lparr>update = [HumanMessage (query response) ''supervisor''],
                     goto = QUERY_EXECUTE\<rparr>, h')))"

text \<open>\<^verbatim>\<open>query_execute\<close>, lines 155 to 189.\<close>

definition query_execute ::
  "globals \<Rightarrow> oracle_call list \<Rightarrow> messages_state
     \<Rightarrow> (py_error + command) \<times> oracle_call list" where
  "query_execute g h state =
     (let executing_agent =
            create_react_agent (llm g) [db_exec_tool_decl] query_execute_modifier in
      case invoke_agent executing_agent h state of
        (Inl e, h') \<Rightarrow> (Inl e, h')
      | (Inr final_result, h') \<Rightarrow>
          (case last_message (messages final_result) of
             Inl e \<Rightarrow> (Inl e, h')
           | Inr m \<Rightarrow>
               (Inr \<lparr>update = [HumanMessage (content m) ''supervisor''],
                     goto = END\<rparr>, h')))"


section \<open>The graph\<close>

text \<open>
  Lines 191 to 205: \<^verbatim>\<open>add_node\<close> binds the three stage functions, \<^verbatim>\<open>add_edge\<close>
  adds the two static edges.
\<close>

definition node_fn ::
  "node \<Rightarrow> (globals \<Rightarrow> oracle_call list \<Rightarrow> messages_state
             \<Rightarrow> (py_error + command) \<times> oracle_call list) option" where
  "node_fn n =
     (case n of
        QUERY_GEN \<Rightarrow> Some query_gen
      | QUERY_CHECK \<Rightarrow> Some query_check
      | QUERY_EXECUTE \<Rightarrow> Some query_execute
      | _ \<Rightarrow> None)"

definition edges :: "(node \<times> node) list" where
  "edges = [(START, QUERY_GEN), (QUERY_EXECUTE, END)]"

text \<open>
  The nodes that follow a node: the targets of its static edges together with the
  targets its command names, each once.
\<close>

definition successors :: "node \<Rightarrow> node list \<Rightarrow> node list" where
  "successors n gotos = remdups (map snd (filter (\<lambda>e. fst e = n) edges) @ gotos)"

text \<open>
  Modelled from the spec: the reducer \<^verbatim>\<open>add_messages\<close> of \<^verbatim>\<open>MessagesState\<close> belongs
  to the graph library and is not part of the module. The spec has the orchestrator
  apply a stage's buffer update by appending it to the conversation buffer.
\<close>

definition add_messages :: "message list \<Rightarrow> message list \<Rightarrow> message list" where
  "add_messages left right = left @ right"

text \<open>
  The state of one run: the conversation buffer (the \<^verbatim>\<open>"messages"\<close> channel), the
  calls made to the model, the chunks \<^verbatim>\<open>{node: update}\<close> that
  \<^verbatim>\<open>graph.stream\<close> has yielded, and the nodes that were entered, in order.
\<close>

record run_state =
  buffer :: "message list"
  calls :: "oracle_call list"
  outputs :: "(node \<times> message list) list"
  trace :: "node list"

datatype run_status =
    Completed
  | Aborted py_error
  | Forked "node list"
  | LimitReached

datatype step_result = Continue node run_state | Halt run_status run_state

text \<open>
  Modelled from the spec: the executor of the compiled graph belongs to the graph
  library and is not part of the module. The spec has each transition apply exactly
  one stage result's buffer update and then dispatch to the next stage.

  One step of the executor runs the function of the active node on the current
  buffer, applies the update and yields the chunk. The run is over when no node but
  \<open>END\<close> follows; an exception of the node aborts the run; several followers would
  run side by side, which the executor reports as \<open>Forked\<close>.
\<close>

definition step :: "globals \<Rightarrow> node \<Rightarrow> run_state \<Rightarrow> step_result" where
  "step g n rs =
     (case node_fn n of
        None \<Rightarrow> Halt Completed rs
      | Some f \<Rightarrow>
          (case f g (calls rs) \<lparr>messages = buffer rs\<rparr> of
             (Inl e, h) \<Rightarrow> Halt (Aborted e) (rs\<lparr>calls := h, trace := trace rs @ [n]\<rparr>)
           | (Inr cmd, h) \<Rightarrow>
               (let rs' = \<lparr>buffer = add_messages (buffer rs) (update cmd),
                           calls = h,
                           outputs = outputs rs @ [(n, update cmd)],
                           trace = trace rs @ [n]\<rparr> in
                case filter (\<lambda>m. m \<noteq> END) (successors n [goto cmd]) of
                  [] \<Rightarrow> Halt Completed rs'
                | [n'] \<Rightarrow> Continue n' rs'
                | ns \<Rightarrow> Halt (Forked ns) rs')))"

text \<open>
  The executor's loop. The fuel bounds the number of nodes that are run, so that
  the loop is a total function; a run that uses it up ends as \<open>LimitReached\<close>. The
  fuel is not the library's own recursion limit, which counts its steps differently:
  the source passes no limit, and any fuel of three or more lets this graph finish.
\<close>

fun run_graph :: "globals \<Rightarrow> nat \<Rightarrow> node \<Rightarrow> run_state \<Rightarrow> run_status \<times> run_state" where
  "run_graph g 0 n rs = (LimitReached, rs)"
| "run_graph g (Suc k) n rs =
     (case step g n rs of
        Halt s rs' \<Rightarrow> (s, rs')
      | Continue n' rs' \<Rightarrow> run_graph g k n' rs')"

text \<open>
  \<^verbatim>\<open>graph.stream(inputs)\<close>: the input messages seed the buffer and the run starts
  at the followers of \<open>START\<close>.
\<close>

definition graph_stream ::
  "globals \<Rightarrow> nat \<Rightarrow> message list \<Rightarrow> run_status \<times> run_state" where
  "graph_stream g limit inputs =
     (let rs = \<lparr>buffer = add_messages [] inputs, calls = [], outputs = [],
                 trace = []\<rparr> in
      case filter (\<lambda>m. m \<noteq> END) (successors START []) of
        [] \<Rightarrow> (Completed, rs)
      | [n] \<Rightarrow> run_graph g limit n rs
      | ns \<Rightarrow> (Forked ns, rs))"


text \<open>
  Importing the module. The application object is created first and the route
  \<^verbatim>\<open>/query\<close> is registered on line 227, after the initialisation: an exception
  during the initialisation ends the import and leaves no application to serve.
\<close>

record app =
  app_globals :: globals
  routes :: "string list"

definition startup :: "platform \<Rightarrow> (string \<rightharpoonup> string) \<Rightarrow> py_error + app" where
  "startup p environ =
     (case module_init p environ of
        Inl e \<Rightarrow> Inl e
      | Inr g \<Rightarrow> Inr \<lparr>app_globals = g, routes = [''/query'']\<rparr>)"

text \<open>
  The origin tags of a run: for every message a stage has appended, the stage and
  the \<^verbatim>\<open>name\<close> the message carries.
\<close>

definition stage_tags :: "run_state \<Rightarrow> (node \<times> string option) list" where
  "stage_tags rs = concat (map (\<lambda>(n, ms). map (\<lambda>m. (n, name m)) ms) (outputs rs))"

text \<open>The order in which the three stages are wired.\<close>

definition stages :: "node list" where
  "stages = [QUERY_GEN, QUERY_CHECK, QUERY_EXECUTE]"

text \<open>The number of backticks a string starts with.\<close>

definition lead :: "string \<Rightarrow> nat" where
  "lead s = length (takeWhile (\<lambda>c. c = CHR 0x60) s)"


section \<open>A concrete deployment\<close>

text \<open>
  A small deployment on which the properties below are evaluated: a database that
  knows one statement, and a model that always answers with that statement.
\<close>

definition example_db :: database where
  "example_db =
     \<lparr>engine = (\<lambda>s. if s = ''SELECT 1'' then Inr ''[(1,)]''
                     else Inl ''syntax error''),
      submitted = []\<rparr>"

definition example_llm :: llm where
  "example_llm =
     \<lparr>structured_output = (\<lambda>h p. Inr \<lparr>query = ''SELECT 1''\<rparr>),
      react = (\<lambda>h ts m ms.
                 Inr (ms @ [\<lparr>kind = AI, content = ''SELECT 1'', name = None\<rparr>]))\<rparr>"

definition example_platform :: platform where
  "example_platform =
     \<lparr>chat_model = (\<lambda>environ model. Inr example_llm),
      connect = (\<lambda>u. Inr example_db),
      get_tools = (\<lambda>d l. [\<lparr>tool_name = ''sql_db_query''\<rparr>,
                            \<lparr>tool_name = ''sql_db_schema''\<rparr>,
                            \<lparr>tool_name = ''sql_db_list_tables''\<rparr>,
                            \<lparr>tool_name = ''sql_db_query_checker''\<rparr>])\<rparr>"

definition example_globals :: globals where
  "example_globals =
     \<lparr>llm = example_llm, db = example_db,
      tools = get_tools example_platform example_db example_llm,
      list_tables_tool = Some \<lparr>tool_name = ''sql_db_list_tables''\<rparr>,
      get_schema_tool = Some \<lparr>tool_name = ''sql_db_schema''\<rparr>\<rparr>"

text \<open>The same deployment with a model whose structured call raises.\<close>

definition example_llm_failing :: llm where
  "example_llm_failing =
     example_llm\<lparr>structured_output := (\<lambda>h p. Inl (External ''provider unavailable''))\<rparr>"

definition example_globals_failing :: globals where
  "example_globals_failing = example_globals\<lparr>llm := example_llm_failing\<rparr>"

text \<open>The same deployment with a toolkit that offers no schema tool.\<close>

definition example_globals_no_schema :: globals where
  "example_globals_no_schema = example_globals\<lparr>get_schema_tool := None\<rparr>"

definition example_environ :: "string \<rightharpoonup> string" where
  "example_environ =
     [''GOOGLE_API_KEY'' \<mapsto> ''secret'', ''DATABASE_URL'' \<mapsto> ''postgresql://localhost/app'']"

definition example_environ_no_url :: "string \<rightharpoonup> string" where
  "example_environ_no_url = [''GOOGLE_API_KEY'' \<mapsto> ''secret'']"

definition example_environ_no_key :: "string \<rightharpoonup> string" where
  "example_environ_no_key = [''DATABASE_URL'' \<mapsto> ''postgresql://localhost/app'']"

definition example_invalid :: string where
  "example_invalid = ''SELEC 1''"

definition example_fenced :: string where
  "example_fenced = ''```sql\<newline>SELECT 1\<newline>```''"

definition example_question :: "message list" where
  "example_question =
     [\<lparr>kind = Human, content = ''How many guest users do we have in the database?'',
       name = None\<rparr>]"


section \<open>Fence stripping\<close>

lemma startswith_iff: "startswith s p \<longleftrightarrow> (\<exists>r. s = p @ r)"
  by (induction s p rule: startswith.induct) auto

lemma contains_iff: "contains sub s \<longleftrightarrow> (\<exists>xs ys. s = xs @ sub @ ys)"
proof (induction s)
  case Nil
  then show ?case by auto
next
  case (Cons c cs)
  show ?case
  proof
    assume "contains sub (c # cs)"
    then consider "startswith (c # cs) sub" | "contains sub cs" by auto
    then show "\<exists>xs ys. c # cs = xs @ sub @ ys"
    proof cases
      case 1
      then obtain r where "c # cs = sub @ r" by (auto simp: startswith_iff)
      then have "c # cs = [] @ sub @ r" by simp
      then show ?thesis by blast
    next
      case 2
      then obtain xs ys where "cs = xs @ sub @ ys" using Cons.IH by auto
      then have "c # cs = (c # xs) @ sub @ ys" by simp
      then show ?thesis by blast
    qed
  next
    assume "\<exists>xs ys. c # cs = xs @ sub @ ys"
    then obtain xs ys where e: "c # cs = xs @ sub @ ys" by auto
    show "contains sub (c # cs)"
    proof (cases xs)
      case Nil
      with e have "startswith (c # cs) sub" by (auto simp: startswith_iff)
      then show ?thesis by simp
    next
      case (Cons x xs')
      with e have "cs = xs' @ sub @ ys" by simp
      then have "contains sub cs" using Cons.IH by blast
      then show ?thesis by simp
    qed
  qed
qed

lemma startswith_fence_lead: "startswith s fence \<longleftrightarrow> 3 \<le> lead s"
  apply (cases s; simp add: fence_def lead_def)
  subgoal for a s1
    apply (cases s1; simp)
    subgoal for b s2 by (cases s2; simp)
    done
  done

lemma lead_drop_fence: "startswith s fence \<Longrightarrow> lead s = 3 + lead (drop 3 s)"
  by (auto simp: startswith_iff fence_def lead_def)

text \<open>
  Removing the fences of three backticks leaves, at the head of the string, the
  backticks that do not fill a fence.
\<close>

lemma lead_replace_fence:
  "old = fence \<Longrightarrow> new = [] \<Longrightarrow> lead (replace s old new) = lead s mod 3"
proof (induction s old new rule: replace.induct)
  case (1 old new)
  then show ?case by (simp add: lead_def)
next
  case (2 c cs old new)
  have ne: "old \<noteq> []" using "2.prems" by (simp add: fence_def)
  have len: "length old = 3" using "2.prems" by (simp add: fence_def)
  show ?case
  proof (cases "startswith (c # cs) old")
    case True
    then have "lead (c # cs) = 3 + lead (drop 3 (c # cs))"
      using "2.prems"(1) lead_drop_fence by blast
    moreover have "lead (replace (drop (length old) (c # cs)) old new)
                     = lead (drop (length old) (c # cs)) mod 3"
      using 2 ne True by blast
    ultimately show ?thesis using True ne len "2.prems"(2) by simp
  next
    case False
    then have small: "lead (c # cs) < 3"
      using "2.prems"(1) startswith_fence_lead by auto
    have ih: "lead (replace cs old new) = lead cs mod 3" using 2 ne False by blast
    show ?thesis
    proof (cases "c = CHR 0x60")
      case True
      then have "lead (c # cs) = Suc (lead cs)" by (simp add: lead_def)
      with small ih True False ne show ?thesis by (simp add: lead_def)
    next
      case False
      with \<open>\<not> startswith (c # cs) old\<close> ne show ?thesis by (simp add: lead_def)
    qed
  qed
qed

lemma replace_fence_free:
  "old = fence \<Longrightarrow> new = [] \<Longrightarrow> \<not> contains fence (replace s old new)"
proof (induction s old new rule: replace.induct)
  case (1 old new)
  then show ?case by (simp add: fence_def)
next
  case (2 c cs old new)
  have ne: "old \<noteq> []" using "2.prems" by (simp add: fence_def)
  show ?case
  proof (cases "startswith (c # cs) old")
    case True
    then show ?thesis using 2 ne by simp
  next
    case False
    have ih: "\<not> contains fence (replace cs old new)" using 2 ne False by blast
    have "lead (replace (c # cs) old new) < 3"
      using lead_replace_fence[OF "2.prems"(1) "2.prems"(2), of "c # cs"] by simp
    then have "\<not> startswith (replace (c # cs) old new) fence"
      by (simp add: startswith_fence_lead)
    then show ?thesis using False ne ih by simp
  qed
qed

text \<open>Stripping whitespace keeps a piece of the string, so it adds no fence.\<close>

lemma contains_strip: "contains sub (strip s) \<Longrightarrow> contains sub s"
proof -
  assume "contains sub (strip s)"
  then obtain xs ys where e: "strip s = xs @ sub @ ys" by (auto simp: contains_iff)
  let ?d = "dropWhile isspace s"
  have "?d = rev (dropWhile isspace (rev ?d)) @ rev (takeWhile isspace (rev ?d))"
    by (metis rev_append rev_rev_ident takeWhile_dropWhile_id)
  then have "?d = xs @ sub @ ys @ rev (takeWhile isspace (rev ?d))"
    using e by (simp add: strip_def)
  moreover have "s = takeWhile isspace s @ ?d" by simp
  ultimately have
    "s = (takeWhile isspace s @ xs) @ sub @ (ys @ rev (takeWhile isspace (rev ?d)))"
    by (metis append.assoc)
  then show ?thesis unfolding contains_iff by blast
qed

lemma contains_fence_sql: "contains fence_sql s \<Longrightarrow> contains fence s"
proof -
  assume "contains fence_sql s"
  then obtain xs ys where "s = xs @ fence_sql @ ys" by (auto simp: contains_iff)
  then have "s = xs @ fence @ (''sql'' @ ys)" by (simp add: fence_def fence_sql_def)
  then show ?thesis unfolding contains_iff by blast
qed

lemma cleaned_fence_free:
  "\<not> contains fence (strip (replace (replace q fence_sql []) fence []))"
  using contains_strip replace_fence_free by blast

lemma db_exec_tool_eq:
  "db_exec_tool d q =
     (Inr (PyDict [(''result'',
             PyStr (case engine d (strip (replace (replace q fence_sql []) fence [])) of
                      Inl message \<Rightarrow> message | Inr rows \<Rightarrow> rows))]),
      d\<lparr>submitted := submitted d
           @ [strip (replace (replace q fence_sql []) fence [])]\<rparr>)"
  by (simp add: db_exec_tool_def run_no_throw_def Let_def split: sum.splits)

lemma example_clean:
  "strip (replace (replace example_fenced fence_sql []) fence []) = ''SELECT 1''"
  by (simp add: example_fenced_def fence_def fence_sql_def strip_def isspace_def)

text \<open>
  C3. Whatever string the tool is called with, wrapped in markdown fences or not, it
  hands exactly one statement to the database, and that statement contains neither
  \<^verbatim>\<open>```\<close> nor \<^verbatim>\<open>```sql\<close>.
\<close>

theorem db_exec_tool_submits_fence_free:
  "\<exists>s. submitted (snd (db_exec_tool d q)) = submitted d @ [s]
        \<and> \<not> contains fence s \<and> \<not> contains fence_sql s"
  using cleaned_fence_free contains_fence_sql by (auto simp: db_exec_tool_eq)

theorem db_exec_tool_submits_fence_free_witness:
  "submitted (snd (db_exec_tool example_db example_fenced)) = [''SELECT 1'']
   \<and> \<not> contains fence ''SELECT 1'' \<and> \<not> contains fence_sql ''SELECT 1''"
  using db_exec_tool_submits_fence_free [of example_db example_fenced]
  by (simp add: db_exec_tool_eq example_clean example_db_def)

text \<open>
  C4. For every input string \<^verbatim>\<open>db_exec_tool\<close> returns and raises nothing; when the
  engine rejects the statement, the text of its error is what the tool returns.
\<close>

theorem db_exec_tool_never_raises:
  "(\<forall>e. fst (db_exec_tool d q) \<noteq> Inl e)
   \<and> (\<forall>message. engine d (strip (replace (replace q fence_sql []) fence [])) = Inl message
         \<longrightarrow> fst (db_exec_tool d q) = Inr (PyDict [(''result'', PyStr message)]))"
  by (simp add: db_exec_tool_eq)

lemma example_invalid_clean:
  "strip (replace (replace example_invalid fence_sql []) fence []) = ''SELEC 1''"
  by (simp add: example_invalid_def fence_def fence_sql_def strip_def isspace_def)

theorem db_exec_tool_never_raises_witness:
  "engine example_db (strip (replace (replace example_invalid fence_sql []) fence []))
     = Inl ''syntax error''
   \<and> fst (db_exec_tool example_db example_invalid)
     = Inr (PyDict [(''result'', PyStr ''syntax error'')])
   \<and> (\<forall>e. fst (db_exec_tool example_db example_invalid) \<noteq> Inl e)"
proof -
  have f: "engine example_db (strip (replace (replace example_invalid fence_sql []) fence []))
             = Inl ''syntax error''"
    by (simp add: example_invalid_clean example_db_def)
  show ?thesis
    using f db_exec_tool_never_raises [of example_db example_invalid] by blast
qed

text \<open>
  C10. For every input string \<^verbatim>\<open>db_exec_tool\<close> returns a dictionary whose one key
  \<^verbatim>\<open>"result"\<close> holds the text that \<^verbatim>\<open>run_no_throw\<close> gave, and never a bare string.
\<close>

theorem db_exec_tool_returns_dict:
  "\<exists>text. fst (run_no_throw d (strip (replace (replace q fence_sql []) fence []))) = Inr text
      \<and> fst (db_exec_tool d q) = Inr (PyDict [(''result'', PyStr text)])
      \<and> (\<forall>s. fst (db_exec_tool d q) \<noteq> Inr (PyStr s))"
  by (simp add: db_exec_tool_eq run_no_throw_def split: sum.splits)

theorem db_exec_tool_returns_dict_witness:
  "fst (db_exec_tool example_db example_fenced) = Inr (PyDict [(''result'', PyStr ''[(1,)]'')])
   \<and> fst (db_exec_tool example_db example_fenced) \<noteq> Inr (PyStr ''[(1,)]'')"
  using db_exec_tool_returns_dict [of example_db example_fenced]
  by (simp add: db_exec_tool_eq example_clean example_db_def)


section \<open>The stages and the executor\<close>

lemma last_message_Inr: "last_message ms = Inr m \<longleftrightarrow> ms \<noteq> [] \<and> m = last ms"
  by (auto simp: last_message_def split: list.splits)

lemma query_gen_Inr:
  "query_gen g h st = (Inr c, h') \<Longrightarrow>
     \<exists>x. c = \<lparr>update = [HumanMessage x ''supervisor''], goto = QUERY_CHECK\<rparr>"
  by (auto simp: query_gen_def Let_def split: option.splits prod.splits sum.splits)

lemma query_check_Inr:
  "query_check g h st = (Inr c, h') \<Longrightarrow>
     \<exists>x. c = \<lparr>update = [HumanMessage x ''supervisor''], goto = QUERY_EXECUTE\<rparr>"
  by (auto simp: query_check_def Let_def split: option.splits prod.splits sum.splits)

lemma query_execute_Inr:
  "query_execute g h st = (Inr c, h') \<Longrightarrow>
     \<exists>x. c = \<lparr>update = [HumanMessage x ''supervisor''], goto = END\<rparr>"
  by (auto simp: query_execute_def Let_def split: option.splits prod.splits sum.splits)

lemma successors_simps:
  "successors START [] = [QUERY_GEN]"
  "successors QUERY_GEN [QUERY_CHECK] = [QUERY_CHECK]"
  "successors QUERY_CHECK [QUERY_EXECUTE] = [QUERY_EXECUTE]"
  "successors QUERY_EXECUTE [END] = [END]"
  by (simp_all add: successors_def edges_def)

lemma step_QUERY_GEN:
  "step g QUERY_GEN rs =
     (case query_gen g (calls rs) \<lparr>messages = buffer rs\<rparr> of
        (Inl e, h) \<Rightarrow> Halt (Aborted e) (rs\<lparr>calls := h, trace := trace rs @ [QUERY_GEN]\<rparr>)
      | (Inr c, h) \<Rightarrow>
          Continue QUERY_CHECK
            \<lparr>buffer = buffer rs @ update c, calls = h,
             outputs = outputs rs @ [(QUERY_GEN, update c)],
             trace = trace rs @ [QUERY_GEN]\<rparr>)"
  by (auto simp: step_def node_fn_def add_messages_def successors_simps
           split: prod.splits sum.splits dest!: query_gen_Inr)

lemma step_QUERY_CHECK:
  "step g QUERY_CHECK rs =
     (case query_check g (calls rs) \<lparr>messages = buffer rs\<rparr> of
        (Inl e, h) \<Rightarrow> Halt (Aborted e) (rs\<lparr>calls := h, trace := trace rs @ [QUERY_CHECK]\<rparr>)
      | (Inr c, h) \<Rightarrow>
          Continue QUERY_EXECUTE
            \<lparr>buffer = buffer rs @ update c, calls = h,
             outputs = outputs rs @ [(QUERY_CHECK, update c)],
             trace = trace rs @ [QUERY_CHECK]\<rparr>)"
  by (auto simp: step_def node_fn_def add_messages_def successors_simps
           split: prod.splits sum.splits dest!: query_check_Inr)

lemma step_QUERY_EXECUTE:
  "step g QUERY_EXECUTE rs =
     (case query_execute g (calls rs) \<lparr>messages = buffer rs\<rparr> of
        (Inl e, h) \<Rightarrow> Halt (Aborted e) (rs\<lparr>calls := h, trace := trace rs @ [QUERY_EXECUTE]\<rparr>)
      | (Inr c, h) \<Rightarrow>
          Halt Completed
            \<lparr>buffer = buffer rs @ update c, calls = h,
             outputs = outputs rs @ [(QUERY_EXECUTE, update c)],
             trace = trace rs @ [QUERY_EXECUTE]\<rparr>)"
  by (auto simp: step_def node_fn_def add_messages_def successors_simps
           split: prod.splits sum.splits dest!: query_execute_Inr)


text \<open>
  Every run of the graph ends in one of seven ways: the fuel is used up before
  a stage, a stage raises, or all three stages return.
\<close>

lemma graph_stream_start:
  "graph_stream g limit inputs =
     run_graph g limit QUERY_GEN \<lparr>buffer = inputs, calls = [], outputs = [], trace = []\<rparr>"
  by (simp add: graph_stream_def successors_simps add_messages_def)

lemma graph_stream_outcomes:
  assumes run: "graph_stream g limit inputs = (s, rs)"
  obtains
    (limit0) "limit = 0" "s = LimitReached"
      "rs = \<lparr>buffer = inputs, calls = [], outputs = [], trace = []\<rparr>"
  | (gen_raised) e h1 where "0 < limit"
      "query_gen g [] \<lparr>messages = inputs\<rparr> = (Inl e, h1)"
      "s = Aborted e"
      "rs = \<lparr>buffer = inputs, calls = h1, outputs = [], trace = [QUERY_GEN]\<rparr>"
  | (limit1) x1 h1 where "limit = 1"
      "query_gen g [] \<lparr>messages = inputs\<rparr>
         = (Inr \<lparr>update = [HumanMessage x1 ''supervisor''], goto = QUERY_CHECK\<rparr>, h1)"
      "s = LimitReached"
      "rs = \<lparr>buffer = inputs @ [HumanMessage x1 ''supervisor''], calls = h1,
             outputs = [(QUERY_GEN, [HumanMessage x1 ''supervisor''])],
             trace = [QUERY_GEN]\<rparr>"
  | (check_raised) x1 h1 e h2 where "1 < limit"
      "query_gen g [] \<lparr>messages = inputs\<rparr>
         = (Inr \<lparr>update = [HumanMessage x1 ''supervisor''], goto = QUERY_CHECK\<rparr>, h1)"
      "query_check g h1 \<lparr>messages = inputs @ [HumanMessage x1 ''supervisor'']\<rparr> = (Inl e, h2)"
      "s = Aborted e"
      "rs = \<lparr>buffer = inputs @ [HumanMessage x1 ''supervisor''], calls = h2,
             outputs = [(QUERY_GEN, [HumanMessage x1 ''supervisor''])],
             trace = [QUERY_GEN, QUERY_CHECK]\<rparr>"
  | (limit2) x1 h1 x2 h2 where "limit = 2"
      "query_gen g [] \<lparr>messages = inputs\<rparr>
         = (Inr \<lparr>update = [HumanMessage x1 ''supervisor''], goto = QUERY_CHECK\<rparr>, h1)"
      "query_check g h1 \<lparr>messages = inputs @ [HumanMessage x1 ''supervisor'']\<rparr>
         = (Inr \<lparr>update = [HumanMessage x2 ''supervisor''], goto = QUERY_EXECUTE\<rparr>, h2)"
      "s = LimitReached"
      "rs = \<lparr>buffer = inputs @ [HumanMessage x1 ''supervisor'', HumanMessage x2 ''supervisor''],
             calls = h2,
             outputs = [(QUERY_GEN, [HumanMessage x1 ''supervisor'']),
                        (QUERY_CHECK, [HumanMessage x2 ''supervisor''])],
             trace = [QUERY_GEN, QUERY_CHECK]\<rparr>"
  | (execute_raised) x1 h1 x2 h2 e h3 where "2 < limit"
      "query_gen g [] \<lparr>messages = inputs\<rparr>
         = (Inr \<lparr>update = [HumanMessage x1 ''supervisor''], goto = QUERY_CHECK\<rparr>, h1)"
      "query_check g h1 \<lparr>messages = inputs @ [HumanMessage x1 ''supervisor'']\<rparr>
         = (Inr \<lparr>update = [HumanMessage x2 ''supervisor''], goto = QUERY_EXECUTE\<rparr>, h2)"
      "query_execute g h2
         \<lparr>messages = inputs @ [HumanMessage x1 ''supervisor'', HumanMessage x2 ''supervisor'']\<rparr>
         = (Inl e, h3)"
      "s = Aborted e"
      "rs = \<lparr>buffer = inputs @ [HumanMessage x1 ''supervisor'', HumanMessage x2 ''supervisor''],
             calls = h3,
             outputs = [(QUERY_GEN, [HumanMessage x1 ''supervisor'']),
                        (QUERY_CHECK, [HumanMessage x2 ''supervisor''])],
             trace = [QUERY_GEN, QUERY_CHECK, QUERY_EXECUTE]\<rparr>"
  | (completed) x1 h1 x2 h2 x3 h3 where "2 < limit"
      "query_gen g [] \<lparr>messages = inputs\<rparr>
         = (Inr \<lparr>update = [HumanMessage x1 ''supervisor''], goto = QUERY_CHECK\<rparr>, h1)"
      "query_check g h1 \<lparr>messages = inputs @ [HumanMessage x1 ''supervisor'']\<rparr>
         = (Inr \<lparr>update = [HumanMessage x2 ''supervisor''], goto = QUERY_EXECUTE\<rparr>, h2)"
      "query_execute g h2
         \<lparr>messages = inputs @ [HumanMessage x1 ''supervisor'', HumanMessage x2 ''supervisor'']\<rparr>
         = (Inr \<lparr>update = [HumanMessage x3 ''supervisor''], goto = END\<rparr>, h3)"
      "s = Completed"
      "rs = \<lparr>buffer = inputs @ [HumanMessage x1 ''supervisor'', HumanMessage x2 ''supervisor'',
                                  HumanMessage x3 ''supervisor''],
             calls = h3,
             outputs = [(QUERY_GEN, [HumanMessage x1 ''supervisor'']),
                        (QUERY_CHECK, [HumanMessage x2 ''supervisor'']),
                        (QUERY_EXECUTE, [HumanMessage x3 ''supervisor''])],
             trace = [QUERY_GEN, QUERY_CHECK, QUERY_EXECUTE]\<rparr>"
proof -
  let ?rs0 = "\<lparr>buffer = inputs, calls = [], outputs = [], trace = []\<rparr>"
  from run have r0: "run_graph g limit QUERY_GEN ?rs0 = (s, rs)"
    by (simp add: graph_stream_start)
  show thesis
  proof (cases limit)
    case 0
    with r0 show thesis by (intro limit0) simp_all
  next
    case (Suc k1)
    obtain r1 h1 where g1: "query_gen g [] \<lparr>messages = inputs\<rparr> = (r1, h1)"
      by (cases "query_gen g [] \<lparr>messages = inputs\<rparr>")
    show thesis
    proof (cases r1)
      case (Inl e)
      with r0 Suc g1 show thesis
        by (intro gen_raised[of e h1]) (simp_all add: step_QUERY_GEN)
    next
      case (Inr c1)
      with g1 obtain x1 where
        c1: "c1 = \<lparr>update = [HumanMessage x1 ''supervisor''], goto = QUERY_CHECK\<rparr>"
        using query_gen_Inr by blast
      let ?rs1 = "\<lparr>buffer = inputs @ [HumanMessage x1 ''supervisor''], calls = h1,
                   outputs = [(QUERY_GEN, [HumanMessage x1 ''supervisor''])],
                   trace = [QUERY_GEN]\<rparr>"
      from r0 Suc g1 Inr c1 have r1: "run_graph g k1 QUERY_CHECK ?rs1 = (s, rs)"
        by (simp add: step_QUERY_GEN)
      show thesis
      proof (cases k1)
        case 0
        with r1 Suc g1 Inr c1 show thesis by (intro limit1[of x1 h1]) simp_all
      next
        case (Suc k2)
        note k1 = Suc
        obtain r2 h2 where g2:
          "query_check g h1 \<lparr>messages = inputs @ [HumanMessage x1 ''supervisor'']\<rparr> = (r2, h2)"
          by (cases "query_check g h1 \<lparr>messages = inputs @ [HumanMessage x1 ''supervisor'']\<rparr>")
        show thesis
        proof (cases r2)
          case (Inl e)
          with r1 k1 g2 g1 \<open>r1 = Inr c1\<close> c1 \<open>limit = Suc k1\<close> show thesis
            by (intro check_raised[of x1 h1 e h2]) (simp_all add: step_QUERY_CHECK)
        next
          case (Inr c2)
          with g2 obtain x2 where
            c2: "c2 = \<lparr>update = [HumanMessage x2 ''supervisor''], goto = QUERY_EXECUTE\<rparr>"
            using query_check_Inr by blast
          let ?rs2 = "\<lparr>buffer = inputs @ [HumanMessage x1 ''supervisor'',
                                           HumanMessage x2 ''supervisor''],
                       calls = h2,
                       outputs = [(QUERY_GEN, [HumanMessage x1 ''supervisor'']),
                                  (QUERY_CHECK, [HumanMessage x2 ''supervisor''])],
                       trace = [QUERY_GEN, QUERY_CHECK]\<rparr>"
          from r1 k1 g2 Inr c2 have r2: "run_graph g k2 QUERY_EXECUTE ?rs2 = (s, rs)"
            by (simp add: step_QUERY_CHECK)
          show thesis
          proof (cases k2)
            case 0
            with r2 k1 g1 g2 \<open>r1 = Inr c1\<close> c1 Inr c2 \<open>limit = Suc k1\<close> show thesis
              by (intro limit2[of x1 h1 x2 h2]) simp_all
          next
            case (Suc k3)
            note k2 = Suc
            obtain r3 h3 where g3:
              "query_execute g h2
                 \<lparr>messages = inputs @ [HumanMessage x1 ''supervisor'',
                                       HumanMessage x2 ''supervisor'']\<rparr> = (r3, h3)"
              by (cases "query_execute g h2
                 \<lparr>messages = inputs @ [HumanMessage x1 ''supervisor'',
                                       HumanMessage x2 ''supervisor'']\<rparr>")
            show thesis
            proof (cases r3)
              case (Inl e)
              with r2 k2 k1 g3 g2 g1 \<open>r1 = Inr c1\<close> c1 \<open>r2 = Inr c2\<close> c2 \<open>limit = Suc k1\<close>
              show thesis
                by (intro execute_raised[of x1 h1 x2 h2 e h3])
                   (simp_all add: step_QUERY_EXECUTE)
            next
              case (Inr c3)
              with g3 obtain x3 where
                c3: "c3 = \<lparr>update = [HumanMessage x3 ''supervisor''], goto = END\<rparr>"
                using query_execute_Inr by blast
              with r2 k2 k1 g3 g2 g1 \<open>r1 = Inr c1\<close> c1 \<open>r2 = Inr c2\<close> c2 Inr
                \<open>limit = Suc k1\<close>
              show thesis
                by (intro completed[of x1 h1 x2 h2 x3 h3])
                   (simp_all add: step_QUERY_EXECUTE)
            qed
          qed
        qed
      qed
    qed
  qed
qed


lemma example_run:
  "fst (graph_stream example_globals 3 example_question) = Completed"
  "buffer (snd (graph_stream example_globals 3 example_question))
     = example_question @ [HumanMessage ''SELECT 1'' ''supervisor'',
                           HumanMessage ''SELECT 1'' ''supervisor'',
                           HumanMessage ''SELECT 1'' ''supervisor'']"
  "outputs (snd (graph_stream example_globals 3 example_question))
     = [(QUERY_GEN, [HumanMessage ''SELECT 1'' ''supervisor'']),
        (QUERY_CHECK, [HumanMessage ''SELECT 1'' ''supervisor'']),
        (QUERY_EXECUTE, [HumanMessage ''SELECT 1'' ''supervisor''])]"
  "trace (snd (graph_stream example_globals 3 example_question))
     = [QUERY_GEN, QUERY_CHECK, QUERY_EXECUTE]"
  by (simp_all add: graph_stream_start numeral_3_eq_3 step_QUERY_GEN step_QUERY_CHECK
        step_QUERY_EXECUTE query_gen_def query_check_def query_execute_def
        example_globals_def example_llm_def example_question_def invoke_agent_def
        invoke_structured_def create_react_agent_def last_message_def Let_def)

text \<open>
  C1. The run starts at \<^verbatim>\<open>query_gen\<close>; a stage that returns is followed by exactly
  one node, \<^verbatim>\<open>query_check\<close> after \<^verbatim>\<open>query_gen\<close>, \<^verbatim>\<open>query_execute\<close> after
  \<^verbatim>\<open>query_check\<close>, \<open>END\<close> after \<^verbatim>\<open>query_execute\<close>; the nodes entered in a run are
  an initial part of that sequence, none twice; the run never forks, it completes
  only after all three, and a fuel of three is enough.
\<close>

theorem pipeline_linear:
  assumes "graph_stream g limit inputs = (s, rs)"
  shows "successors START [] = [QUERY_GEN]
    \<and> (\<forall>h st c h'. query_gen g h st = (Inr c, h')
          \<longrightarrow> successors QUERY_GEN [goto c] = [QUERY_CHECK])
    \<and> (\<forall>h st c h'. query_check g h st = (Inr c, h')
          \<longrightarrow> successors QUERY_CHECK [goto c] = [QUERY_EXECUTE])
    \<and> (\<forall>h st c h'. query_execute g h st = (Inr c, h')
          \<longrightarrow> successors QUERY_EXECUTE [goto c] = [END])
    \<and> trace rs = take (length (trace rs)) stages
    \<and> distinct (trace rs)
    \<and> (\<forall>ns. s \<noteq> Forked ns)
    \<and> (s = Completed \<longrightarrow> trace rs = stages)
    \<and> (3 \<le> limit \<longrightarrow> s \<noteq> LimitReached)"
proof -
  have a: "\<forall>h st c h'. query_gen g h st = (Inr c, h')
          \<longrightarrow> successors QUERY_GEN [goto c] = [QUERY_CHECK]"
    using query_gen_Inr by (fastforce simp: successors_simps)
  have b: "\<forall>h st c h'. query_check g h st = (Inr c, h')
          \<longrightarrow> successors QUERY_CHECK [goto c] = [QUERY_EXECUTE]"
    using query_check_Inr by (fastforce simp: successors_simps)
  have c: "\<forall>h st c h'. query_execute g h st = (Inr c, h')
          \<longrightarrow> successors QUERY_EXECUTE [goto c] = [END]"
    using query_execute_Inr by (fastforce simp: successors_simps)
  have d: "trace rs = take (length (trace rs)) stages \<and> distinct (trace rs)
    \<and> (\<forall>ns. s \<noteq> Forked ns) \<and> (s = Completed \<longrightarrow> trace rs = stages)
    \<and> (3 \<le> limit \<longrightarrow> s \<noteq> LimitReached)"
    using assms by (cases rule: graph_stream_outcomes) (simp_all add: stages_def)
  show ?thesis using a b c d by (simp add: successors_simps)
qed

theorem pipeline_linear_witness:
  "fst (graph_stream example_globals 3 example_question) = Completed
   \<and> trace (snd (graph_stream example_globals 3 example_question))
       = [QUERY_GEN, QUERY_CHECK, QUERY_EXECUTE]"
  using pipeline_linear [OF prod.collapse [symmetric],
      of example_globals 3 example_question] example_run
  by (simp add: stages_def)


section \<open>Properties of the stages and of a run\<close>

text \<open>
  C6. When the toolkit offers no list-tables tool or no schema tool, \<^verbatim>\<open>query_gen\<close>
  raises \<^verbatim>\<open>ValueError\<close> before it calls the model, and a run of the graph aborts
  with that error in its first stage, its buffer unchanged.
\<close>

theorem query_gen_requires_tools:
  assumes "list_tables_tool g = None \<or> get_schema_tool g = None"
  shows "query_gen g h st = (Inl (ValueError tools_unavailable), h)
    \<and> (0 < limit \<longrightarrow>
         graph_stream g limit inputs
           = (Aborted (ValueError tools_unavailable),
              \<lparr>buffer = inputs, calls = [], outputs = [], trace = [QUERY_GEN]\<rparr>))"
proof -
  have a: "\<And>h st. query_gen g h st = (Inl (ValueError tools_unavailable), h)"
    using assms by (auto simp: query_gen_def split: option.splits)
  have "graph_stream g (Suc k) inputs
           = (Aborted (ValueError tools_unavailable),
              \<lparr>buffer = inputs, calls = [], outputs = [], trace = [QUERY_GEN]\<rparr>)" for k
    by (simp add: graph_stream_start step_QUERY_GEN a)
  then show ?thesis using a by (cases limit) simp_all
qed

theorem query_gen_requires_tools_witness:
  "get_schema_tool example_globals_no_schema = None
   \<and> query_gen example_globals_no_schema [] \<lparr>messages = example_question\<rparr>
       = (Inl (ValueError tools_unavailable), [])
   \<and> graph_stream example_globals_no_schema 3 example_question
       = (Aborted (ValueError tools_unavailable),
          \<lparr>buffer = example_question, calls = [], outputs = [], trace = [QUERY_GEN]\<rparr>)"
proof -
  have n: "get_schema_tool example_globals_no_schema = None"
    by (simp add: example_globals_no_schema_def)
  then have "list_tables_tool example_globals_no_schema = None
             \<or> get_schema_tool example_globals_no_schema = None" by simp
  from query_gen_requires_tools [OF this, of "[]" "\<lparr>messages = example_question\<rparr>" 3
      example_question] n
  show ?thesis by simp
qed

text \<open>
  C5. On a non-empty buffer \<^verbatim>\<open>query_check\<close> calls the model exactly once, whether
  the call returns or raises: the call grants no tool, forces the schema
  \<^verbatim>\<open>QueryChecker\<close> (one field, \<^verbatim>\<open>query\<close>) and carries the prompt built from the last
  message. When the call returns, the stage's one new message is that query, it is
  the last message of the updated buffer, and the only node that follows is
  \<^verbatim>\<open>query_execute\<close>.
\<close>

theorem query_check_single_call:
  assumes "messages st \<noteq> []"
  shows "snd (query_check g h st)
       = h @ [\<lparr>granted_tools = [], output_schema = Some ''QueryChecker'',
               directive = full_prompt (content (last (messages st))),
               input_messages = []\<rparr>]
    \<and> (case structured_output (llm g) h (full_prompt (content (last (messages st)))) of
         Inl e \<Rightarrow> fst (query_check g h st) = Inl e
       | Inr response \<Rightarrow>
           fst (query_check g h st)
             = Inr \<lparr>update = [HumanMessage (query response) ''supervisor''],
                    goto = QUERY_EXECUTE\<rparr>
           \<and> last (add_messages (messages st) [HumanMessage (query response) ''supervisor''])
             = HumanMessage (query response) ''supervisor''
           \<and> successors QUERY_CHECK [QUERY_EXECUTE] = [QUERY_EXECUTE])"
  using assms
  by (auto simp: query_check_def last_message_def invoke_structured_def Let_def
        add_messages_def successors_simps split: list.splits sum.splits)

theorem query_check_single_call_witness:
  "messages \<lparr>messages = example_question\<rparr> \<noteq> []
   \<and> query_check example_globals [] \<lparr>messages = example_question\<rparr>
       = (Inr \<lparr>update = [HumanMessage ''SELECT 1'' ''supervisor''], goto = QUERY_EXECUTE\<rparr>,
          [\<lparr>granted_tools = [], output_schema = Some ''QueryChecker'',
            directive = full_prompt ''How many guest users do we have in the database?'',
            input_messages = []\<rparr>])"
proof -
  have n: "messages \<lparr>messages = example_question\<rparr> \<noteq> []"
    by (simp add: example_question_def)
  have r: "structured_output (llm example_globals) []
             (full_prompt (content (last (messages \<lparr>messages = example_question\<rparr>))))
           = Inr \<lparr>query = ''SELECT 1''\<rparr>"
    by (simp add: example_globals_def example_llm_def)
  have c: "content (last (messages \<lparr>messages = example_question\<rparr>))
           = ''How many guest users do we have in the database?''"
    by (simp add: example_question_def)
  from query_check_single_call [OF n, of example_globals "[]"] r c n
  show ?thesis by (simp add: prod_eq_iff)
qed

text \<open>
  C8. The claim that messages of distinct stages carry distinct origin tags fails: in
  the run of the concrete deployment the message of \<^verbatim>\<open>query_gen\<close> and the message
  of \<^verbatim>\<open>query_check\<close> carry the same tag.
\<close>

theorem origin_tags_shared_counterexample:
  "(QUERY_GEN, Some ''supervisor'')
       \<in> set (stage_tags (snd (graph_stream example_globals 3 example_question)))
   \<and> (QUERY_CHECK, Some ''supervisor'')
       \<in> set (stage_tags (snd (graph_stream example_globals 3 example_question)))
   \<and> QUERY_GEN \<noteq> QUERY_CHECK"
  by (simp add: stage_tags_def example_run HumanMessage_def)

text \<open>
  C8, as amended. Every message that a stage appends carries the tag
  \<^verbatim>\<open>supervisor\<close>, whichever stage produced it: each chunk of a run holds one
  message, and the tag of each is \<^verbatim>\<open>supervisor\<close>.
\<close>

theorem origin_tag_supervisor:
  assumes "graph_stream g limit inputs = (s, rs)"
  shows "length (stage_tags rs) = length (outputs rs)
    \<and> (\<forall>(n, t) \<in> set (stage_tags rs). t = Some ''supervisor'')"
  using assms
  by (cases rule: graph_stream_outcomes) (simp_all add: stage_tags_def HumanMessage_def)

theorem origin_tag_supervisor_witness:
  "stage_tags (snd (graph_stream example_globals 3 example_question))
     = [(QUERY_GEN, Some ''supervisor''), (QUERY_CHECK, Some ''supervisor''),
        (QUERY_EXECUTE, Some ''supervisor'')]
   \<and> length (stage_tags (snd (graph_stream example_globals 3 example_question)))
       = length (outputs (snd (graph_stream example_globals 3 example_question)))"
  using origin_tag_supervisor [OF prod.collapse [symmetric],
      of example_globals 3 example_question]
  by (simp add: stage_tags_def example_run HumanMessage_def)

text \<open>
  C9. When the environment lacks the API key or the database URI, the
  initialisation of the module raises, so the import fails and no application with
  its route comes to exist.
\<close>

theorem startup_requires_configuration:
  assumes "environ ''GOOGLE_API_KEY'' = None \<or> environ ''DATABASE_URL'' = None"
  shows "\<exists>e. module_init p environ = Inl e \<and> startup p environ = Inl e"
  using assms
  by (auto simp: startup_def module_init_def from_uri_def Let_def
           split: option.splits sum.splits)

text \<open>With both variables present the concrete deployment starts.\<close>

lemma example_startup:
  "startup example_platform example_environ
     = Inr \<lparr>app_globals = example_globals, routes = [''/query'']\<rparr>"
  by (simp add: startup_def module_init_def from_uri_def Let_def example_platform_def
        example_environ_def example_globals_def)

theorem startup_requires_configuration_witness:
  "example_environ_no_url ''DATABASE_URL'' = None
   \<and> startup example_platform example_environ_no_url
       = Inl (ConfigurationError ''missing database URI'')
   \<and> example_environ_no_key ''GOOGLE_API_KEY'' = None
   \<and> startup example_platform example_environ_no_key
       = Inl (TypeError ''str expected, not NoneType'')"
proof -
  have a: "example_environ_no_url ''GOOGLE_API_KEY'' = None
           \<or> example_environ_no_url ''DATABASE_URL'' = None"
    by (simp add: example_environ_no_url_def)
  have b: "example_environ_no_key ''GOOGLE_API_KEY'' = None
           \<or> example_environ_no_key ''DATABASE_URL'' = None"
    by (simp add: example_environ_no_key_def)
  from startup_requires_configuration [OF a, of example_platform]
       startup_requires_configuration [OF b, of example_platform]
  show ?thesis
    by (simp add: startup_def module_init_def from_uri_def Let_def example_platform_def
          example_environ_no_url_def example_environ_no_key_def)
qed

text \<open>A step of the executor leaves the buffer as it is or adds one message at its end.\<close>

lemma step_buffer:
  "step g n r = Continue n' r' \<Longrightarrow> \<exists>m. buffer r' = buffer r @ [m]"
  "step g n r = Halt s' r' \<Longrightarrow> buffer r' = buffer r \<or> (\<exists>m. buffer r' = buffer r @ [m])"
proof -
  show "step g n r = Continue n' r' \<Longrightarrow> \<exists>m. buffer r' = buffer r @ [m]"
    by (cases n)
       (auto simp: step_QUERY_GEN step_QUERY_CHECK step_QUERY_EXECUTE
             split: prod.splits sum.splits
             dest!: query_gen_Inr query_check_Inr query_execute_Inr,
        auto simp: step_def node_fn_def)
  show "step g n r = Halt s' r' \<Longrightarrow> buffer r' = buffer r \<or> (\<exists>m. buffer r' = buffer r @ [m])"
    by (cases n)
       (auto simp: step_QUERY_GEN step_QUERY_CHECK step_QUERY_EXECUTE
             split: prod.splits sum.splits
             dest!: query_gen_Inr query_check_Inr query_execute_Inr,
        auto simp: step_def node_fn_def)
qed

text \<open>What each stage hands to the model when it returns.\<close>

lemma query_gen_call:
  "query_gen g h st = (Inr c, h') \<Longrightarrow>
     \<exists>cl. h' = h @ [cl] \<and> input_messages cl = messages st"
  by (auto simp: query_gen_def invoke_agent_def Let_def
           split: option.splits prod.splits sum.splits)

lemma query_check_call:
  "query_check g h st = (Inr c, h') \<Longrightarrow>
     \<exists>cl. h' = h @ [cl] \<and> directive cl = full_prompt (content (last (messages st)))"
  by (auto simp: query_check_def invoke_structured_def last_message_Inr Let_def
           split: option.splits prod.splits sum.splits)

lemma query_execute_call:
  "query_execute g h st = (Inr c, h') \<Longrightarrow>
     \<exists>cl. h' = h @ [cl] \<and> input_messages cl = messages st"
  by (auto simp: query_execute_def invoke_agent_def Let_def
           split: option.splits prod.splits sum.splits)

text \<open>The run of the deployment whose structured call raises.\<close>

lemma example_failing_run:
  "fst (graph_stream example_globals_failing 3 example_question)
     = Aborted (External ''provider unavailable'')"
  "buffer (snd (graph_stream example_globals_failing 3 example_question))
     = example_question @ [HumanMessage ''SELECT 1'' ''supervisor'']"
  by (simp_all add: graph_stream_start numeral_3_eq_3 step_QUERY_GEN step_QUERY_CHECK
        query_gen_def query_check_def example_globals_failing_def example_llm_failing_def
        example_globals_def example_llm_def example_question_def invoke_agent_def
        invoke_structured_def create_react_agent_def last_message_def Let_def)

text \<open>
  C2. The claim that the buffer of every run ends three messages longer than it
  started fails: when the model's call in \<^verbatim>\<open>query_check\<close> raises, the exception
  ends the run, and the buffer holds one message more than the input, not three.
\<close>

theorem buffer_plus_three_counterexample:
  "fst (graph_stream example_globals_failing 3 example_question)
     = Aborted (External ''provider unavailable'')
   \<and> length (buffer (snd (graph_stream example_globals_failing 3 example_question)))
     = length example_question + 1
   \<and> length (buffer (snd (graph_stream example_globals_failing 3 example_question)))
     \<noteq> length example_question + 3"
  by (simp add: example_failing_run)

text \<open>
  C2, as amended. Every step of the executor that goes on to another node adds
  exactly one message at the end of the buffer, and a step that ends the run adds
  one or none; nothing is removed, replaced or reordered. The buffer of a run is
  the input followed by one message for each stage that returned, in the order of
  the stages, at most three. The buffer is three messages longer than the input
  exactly when the run completes; then each stage was given the buffer that ends
  with the message of the stage before: the first agent the input, the checking
  call the prompt built from the first stage's message, the second agent the input
  followed by the messages of the first two stages.
\<close>

theorem buffer_append_only:
  assumes "graph_stream g limit inputs = (s, rs)"
  shows "(\<forall>n r n' r'. step g n r = Continue n' r' \<longrightarrow> (\<exists>m. buffer r' = buffer r @ [m]))
    \<and> (\<forall>n r s' r'. step g n r = Halt s' r'
          \<longrightarrow> buffer r' = buffer r \<or> (\<exists>m. buffer r' = buffer r @ [m]))
    \<and> (\<exists>ms. buffer rs = inputs @ ms \<and> length ms = length (outputs rs) \<and> length ms \<le> 3
           \<and> map fst (outputs rs) = take (length ms) stages)
    \<and> ((length (buffer rs) = length inputs + 3) = (s = Completed))
    \<and> (s = Completed \<longrightarrow>
          length (buffer rs) = length inputs + 3
          \<and> (\<exists>m1 m2 m3 h1 h2 h3.
                buffer rs = inputs @ [m1, m2, m3]
              \<and> query_gen g [] \<lparr>messages = inputs\<rparr>
                  = (Inr \<lparr>update = [m1], goto = QUERY_CHECK\<rparr>, h1)
              \<and> query_check g h1 \<lparr>messages = inputs @ [m1]\<rparr>
                  = (Inr \<lparr>update = [m2], goto = QUERY_EXECUTE\<rparr>, h2)
              \<and> query_execute g h2 \<lparr>messages = inputs @ [m1, m2]\<rparr>
                  = (Inr \<lparr>update = [m3], goto = END\<rparr>, h3)
              \<and> calls rs = h3
              \<and> (\<exists>c1 c2 c3. h1 = [c1] \<and> h2 = [c1, c2] \<and> h3 = [c1, c2, c3]
                    \<and> input_messages c1 = inputs
                    \<and> directive c2 = full_prompt (content m1)
                    \<and> input_messages c3 = inputs @ [m1, m2])))"
proof -
  have a: "\<exists>ms. buffer rs = inputs @ ms \<and> length ms = length (outputs rs) \<and> length ms \<le> 3
           \<and> map fst (outputs rs) = take (length ms) stages"
    using assms by (cases rule: graph_stream_outcomes) (simp_all add: stages_def)
  have i: "(length (buffer rs) = length inputs + 3) = (s = Completed)"
    using assms by (cases rule: graph_stream_outcomes) simp_all
  have b: "s = Completed \<longrightarrow>
          length (buffer rs) = length inputs + 3
          \<and> (\<exists>m1 m2 m3 h1 h2 h3.
                buffer rs = inputs @ [m1, m2, m3]
              \<and> query_gen g [] \<lparr>messages = inputs\<rparr>
                  = (Inr \<lparr>update = [m1], goto = QUERY_CHECK\<rparr>, h1)
              \<and> query_check g h1 \<lparr>messages = inputs @ [m1]\<rparr>
                  = (Inr \<lparr>update = [m2], goto = QUERY_EXECUTE\<rparr>, h2)
              \<and> query_execute g h2 \<lparr>messages = inputs @ [m1, m2]\<rparr>
                  = (Inr \<lparr>update = [m3], goto = END\<rparr>, h3)
              \<and> calls rs = h3
              \<and> (\<exists>c1 c2 c3. h1 = [c1] \<and> h2 = [c1, c2] \<and> h3 = [c1, c2, c3]
                    \<and> input_messages c1 = inputs
                    \<and> directive c2 = full_prompt (content m1)
                    \<and> input_messages c3 = inputs @ [m1, m2]))"
    using assms
  proof (cases rule: graph_stream_outcomes)
    case (completed x1 h1 x2 h2 x3 h3)
    let ?m1 = "HumanMessage x1 ''supervisor''"
    let ?m2 = "HumanMessage x2 ''supervisor''"
    let ?m3 = "HumanMessage x3 ''supervisor''"
    from completed(2) obtain c1 where c1: "h1 = [c1]" "input_messages c1 = inputs"
      using query_gen_call by fastforce
    from completed(3) c1 obtain c2 where c2: "h2 = [c1, c2]"
        "directive c2 = full_prompt (content ?m1)"
      using query_check_call by fastforce
    from completed(4) c2 obtain c3 where c3: "h3 = [c1, c2, c3]"
        "input_messages c3 = inputs @ [?m1, ?m2]"
      using query_execute_call by fastforce
    have "buffer rs = inputs @ [?m1, ?m2, ?m3]" "calls rs = h3"
      using completed(6) by simp_all
    with completed(2,3,4) c1 c2 c3 show ?thesis by fastforce
  qed simp_all
  show ?thesis using a i b step_buffer by blast
qed

theorem buffer_append_only_witness:
  "fst (graph_stream example_globals 3 example_question) = Completed
   \<and> length (buffer (snd (graph_stream example_globals 3 example_question)))
       = length example_question + 3"
  using buffer_append_only [OF prod.collapse [symmetric],
      of example_globals 3 example_question]
  by (simp add: example_run)

end
